theory Spec2Isabelle
  imports Main
begin

section \<open>A model of clic.h\<close>

text \<open>
  The header library \<^verbatim>\<open>clic.h\<close> keeps one static structure \<^verbatim>\<open>clic_globals\<close>; every
  function of its interface reads and updates it. The model passes that structure
  explicitly. Conventions:
  \<^item> a \<^verbatim>\<open>const char *\<close> is a \<open>string option\<close>: \<open>None\<close> is the null pointer and
    \<open>Some s\<close> points to the characters \<open>s\<close> that stand before the terminating NUL;
  \<^item> an \<^verbatim>\<open>int *\<close> or \<^verbatim>\<open>char **\<close> is a \<open>nat option\<close>, an address or the null pointer;
  \<^item> the intrusive singly linked lists are HOL lists in insertion order
    (\<^verbatim>\<open>clic_add_to_list\<close> appends at the end, \<^verbatim>\<open>clic_list_for\<close> walks from the start);
  \<^item> every path that ends in \<^verbatim>\<open>exit\<close> is a value of \<open>clic_exit\<close>, returned as \<open>Inl\<close>;
  \<^item> C \<^verbatim>\<open>int\<close> values are HOL integers: the library only compares and stores them, and
    the one counter it increments is bounded by the number of tokens.
\<close>

subsection \<open>Process exits\<close>

datatype clic_exit =
  EXIT_FAILURE string
  | EXIT_SUCCESS
  | NULL_DEREFERENCE

text \<open>
  \<^verbatim>\<open>clic_fail\<close> prints its message with \<^verbatim>\<open>perror\<close> and calls \<^verbatim>\<open>exit(EXIT_FAILURE)\<close>.
  Every call of it in the library reports a misuse of the declaration or parsing
  interface (a configuration error). \<open>NULL_DEREFERENCE\<close> stands for a write through a
  null pointer.
\<close>

definition clic_fail :: "string \<Rightarrow> clic_exit + 'a" where
  "clic_fail error_message = Inl (EXIT_FAILURE error_message)"

fun is_ConfigurationError :: "clic_exit + 'a \<Rightarrow> bool" where
  "is_ConfigurationError (Inl (EXIT_FAILURE m)) = True"
| "is_ConfigurationError (Inl EXIT_SUCCESS) = False"
| "is_ConfigurationError (Inl NULL_DEREFERENCE) = False"
| "is_ConfigurationError (Inr x) = False"

definition and_then :: "clic_exit + 'a \<Rightarrow> ('a \<Rightarrow> clic_exit + 'b) \<Rightarrow> clic_exit + 'b" where
  "and_then r f = (case r of Inl e \<Rightarrow> Inl e | Inr x \<Rightarrow> f x)"

subsection \<open>Structures\<close>

datatype clic_type = CLIC_FLAG | CLIC_BOOL | CLIC_INT | CLIC_STRING

text \<open>
  Three structures of the source have a field \<^verbatim>\<open>subcommand_id\<close>, and two a field
  \<^verbatim>\<open>description\<close>; the fields of \<^verbatim>\<open>struct clic_param_or_arg\<close> and of
  \<^verbatim>\<open>struct clic_string_option\<close> carry a prefix here.
\<close>

record clic_param_or_arg =
  param_subcommand_id :: int
  param_name :: "string option"
  param_description :: "string option"
  param_type :: clic_type
  is_required :: int
  scalar_default_value :: int
  scalar_variable :: "nat option"
  mask :: int
  string_default_value :: "string option"
  string_variable :: "nat option"
  restrict_to_declared_options :: int

record clic_scope =
  subcommand_id :: int
  subcommand_name :: "string option"
  description :: "string option"
  accept_unnamed_arguments :: int

record clic_string_option =
  option_subcommand_id :: int
  param_or_arg_name :: "string option"
  option_value :: "string option"

record clic_metadata =
  version :: "string option"
  license :: "string option"

record clic_globals =
  is_init :: int
  is_parsed :: int
  flag_names :: "string list"
  params_and_args :: "clic_param_or_arg list"
  string_options :: "clic_string_option list"
  subcommand_scopes :: "clic_scope list"
  metadata :: clic_metadata
  main_scope :: clic_scope

text \<open>A compound literal sets the members it does not name to zero.\<close>

definition zero_scope :: clic_scope where
  "zero_scope = \<lparr>subcommand_id = 0, subcommand_name = None, description = None,
     accept_unnamed_arguments = 0\<rparr>"

definition zero_param_or_arg :: clic_param_or_arg where
  "zero_param_or_arg = \<lparr>param_subcommand_id = 0, param_name = None,
     param_description = None, param_type = CLIC_FLAG, is_required = 0,
     scalar_default_value = 0, scalar_variable = None, mask = 0,
     string_default_value = None, string_variable = None,
     restrict_to_declared_options = 0\<rparr>"

text \<open>The static structure before any call: all members zero.\<close>

definition clic_globals_zero :: clic_globals where
  "clic_globals_zero = \<lparr>is_init = 0, is_parsed = 0, flag_names = [],
     params_and_args = [], string_options = [], subcommand_scopes = [],
     metadata = \<lparr>version = None, license = None\<rparr>, main_scope = zero_scope\<rparr>"

definition clic_add_to_list :: "'a list \<Rightarrow> 'a \<Rightarrow> 'a list" where
  "clic_add_to_list list elem = list @ [elem]"

subsection \<open>Characters and strings of the C library\<close>

text \<open>
  \<^verbatim>\<open>isalpha\<close> in the "C" locale (the library never calls \<^verbatim>\<open>setlocale\<close>): the 52 ASCII
  letters.
\<close>

definition isalpha :: "char \<Rightarrow> bool" where
  "isalpha c = (let n = (of_char c :: nat) in (65 \<le> n \<and> n \<le> 90) \<or> (97 \<le> n \<and> n \<le> 122))"

text \<open>\<^verbatim>\<open>s[i]\<close> for \<open>i\<close> up to the length of \<open>s\<close>: position \<open>length s\<close> holds the NUL.\<close>

definition char_at :: "string \<Rightarrow> nat \<Rightarrow> char" where
  "char_at s i = (if i < length s then s ! i else CHR 0x00)"

text \<open>
  \<^verbatim>\<open>!strcmp(a, b)\<close>. The library compares only names it has validated and tokens of the
  command line, none of them null; a null pointer compares unequal here.
\<close>

definition str_equal :: "string option \<Rightarrow> string option \<Rightarrow> bool" where
  "str_equal a b = (case a of None \<Rightarrow> False | Some x \<Rightarrow> (case b of None \<Rightarrow> False | Some y \<Rightarrow> x = y))"

subsection \<open>Checks\<close>

definition clic_check_initialized_and_not_parsed :: "clic_globals \<Rightarrow> clic_exit + unit" where
  "clic_check_initialized_and_not_parsed g =
     (if is_init g = 0 then clic_fail ''clic has not been initialized''
      else if is_parsed g \<noteq> 0 then clic_fail ''clic has already parsed command line arguments''
      else Inr ())"

text \<open>The loop of \<^verbatim>\<open>clic_check_name_correctness\<close> over the characters up to the NUL.\<close>

fun check_name_chars :: "string \<Rightarrow> clic_exit + unit" where
  "check_name_chars [] = Inr ()"
| "check_name_chars (c # cs) =
     (if \<not> (isalpha c \<or> c = CHR ''-'' \<or> c = CHR ''_'')
      then clic_fail ''clic: invalid parameter/argument name''
      else check_name_chars cs)"

definition clic_check_name_correctness :: "string option \<Rightarrow> clic_exit + unit" where
  "clic_check_name_correctness name =
     (case name of
        None \<Rightarrow> clic_fail ''clic: invalid parameter/argument name''
      | Some s \<Rightarrow>
          if \<not> isalpha (char_at s 0) then clic_fail ''clic: invalid parameter/argument name''
          else check_name_chars s)"

definition clic_check_param_or_arg_declaration ::
  "clic_globals \<Rightarrow> int \<Rightarrow> string option \<Rightarrow> int \<Rightarrow> clic_exit + unit" where
  "clic_check_param_or_arg_declaration g scope_id name should_be_declared =
     and_then (clic_check_name_correctness name) (\<lambda>_.
       let is_declared = list_ex (\<lambda>param_or_arg.
             scope_id = param_subcommand_id param_or_arg \<and>
             str_equal name (param_name param_or_arg)) (params_and_args g)
       in if should_be_declared \<noteq> 0 \<and> \<not> is_declared
          then clic_fail ''clic: parameter/argument has not been declared in this scope''
          else if should_be_declared = 0 \<and> is_declared
          then clic_fail ''clic: parameter/argument has already been declared in this scope''
          else Inr ())"

definition clic_check_subcommmand_declaration ::
  "clic_globals \<Rightarrow> int \<Rightarrow> string option \<Rightarrow> int \<Rightarrow> clic_exit + unit" where
  "clic_check_subcommmand_declaration g scope_id name should_be_declared =
     (if scope_id \<noteq> 0 then
        if should_be_declared \<noteq> 0 then
          if list_ex (\<lambda>scope. scope_id = subcommand_id scope) (subcommand_scopes g) then Inr ()
          else clic_fail ''clic: subcommand has not been declared''
        else
          and_then (clic_check_name_correctness name) (\<lambda>_.
            if list_ex (\<lambda>scope. scope_id = subcommand_id scope \<and>
                 str_equal name (subcommand_name scope)) (subcommand_scopes g)
            then clic_fail ''clic: subcommand has already been declared''
            else Inr ())
      else if should_be_declared = 0
      then clic_fail ''clic: 0 is already implicitely used as the main scope identifier''
      else Inr ())"

subsection \<open>Declarations\<close>

definition clic_init ::
  "string option \<Rightarrow> string option \<Rightarrow> string option \<Rightarrow> string option \<Rightarrow> int \<Rightarrow>
   clic_globals \<Rightarrow> clic_exit + clic_globals" where
  "clic_init program vers lic descr accept g =
     Inr (g\<lparr>is_init := 1,
            metadata := \<lparr>version = vers, license = lic\<rparr>,
            main_scope := zero_scope\<lparr>subcommand_name := program, description := descr,
              accept_unnamed_arguments := accept\<rparr>\<rparr>)"

definition clic_add_subcommand ::
  "int \<Rightarrow> string option \<Rightarrow> string option \<Rightarrow> int \<Rightarrow> clic_globals \<Rightarrow> clic_exit + clic_globals" where
  "clic_add_subcommand scope_id name descr accept g =
     and_then (clic_check_initialized_and_not_parsed g) (\<lambda>_.
     and_then (clic_check_name_correctness name) (\<lambda>_.
     and_then (clic_check_subcommmand_declaration g scope_id name 0) (\<lambda>_.
       Inr (g\<lparr>subcommand_scopes := clic_add_to_list (subcommand_scopes g)
             (zero_scope\<lparr>subcommand_id := scope_id, subcommand_name := name, description := descr,
                accept_unnamed_arguments := accept\<rparr>)\<rparr>))))"

definition clic_add_param_or_arg ::
  "int \<Rightarrow> string option \<Rightarrow> string option \<Rightarrow> clic_type \<Rightarrow> int \<Rightarrow> clic_param_or_arg \<Rightarrow>
   clic_globals \<Rightarrow> clic_exit + clic_globals" where
  "clic_add_param_or_arg scope_id name descr type required inconsistent_data g =
     and_then (clic_check_initialized_and_not_parsed g) (\<lambda>_.
     and_then (clic_check_name_correctness name) (\<lambda>_.
     and_then (clic_check_subcommmand_declaration g scope_id None 1) (\<lambda>_.
     and_then (clic_check_param_or_arg_declaration g scope_id name 0) (\<lambda>_.
       Inr (g\<lparr>params_and_args := clic_add_to_list (params_and_args g)
             (inconsistent_data\<lparr>param_subcommand_id := scope_id, param_name := name,
                param_description := descr, param_type := type,
                is_required := required\<rparr>)\<rparr>)))))"

text \<open>
  \<^verbatim>\<open>clic_add_param_flag\<close> first stores the one-character name in a buffer of its own
  (\<^verbatim>\<open>name[0] = name; name[1] = 0\<close>) and links the buffer into \<^verbatim>\<open>flag_names\<close>; only then
  does \<^verbatim>\<open>clic_add_param_or_arg\<close> run the checks.
\<close>

definition clic_add_param_flag ::
  "int \<Rightarrow> char \<Rightarrow> string option \<Rightarrow> nat option \<Rightarrow> int \<Rightarrow> clic_globals \<Rightarrow> clic_exit + clic_globals" where
  "clic_add_param_flag scope_id name descr variable msk g =
     (let flag_name = (if name = CHR 0x00 then [] else [name]);
          g1 = g\<lparr>flag_names := clic_add_to_list (flag_names g) flag_name\<rparr>
      in clic_add_param_or_arg scope_id (Some flag_name) descr CLIC_FLAG 0
           (zero_param_or_arg\<lparr>scalar_default_value := 0, scalar_variable := variable,
              mask := msk\<rparr>) g1)"

definition clic_add_param_bool ::
  "int \<Rightarrow> string option \<Rightarrow> string option \<Rightarrow> int \<Rightarrow> nat option \<Rightarrow> int \<Rightarrow> clic_globals \<Rightarrow>
   clic_exit + clic_globals" where
  "clic_add_param_bool scope_id name descr default_value variable msk g =
     clic_add_param_or_arg scope_id name descr CLIC_BOOL 0
       (zero_param_or_arg\<lparr>scalar_default_value := default_value, scalar_variable := variable,
          mask := msk\<rparr>) g"

definition clic_add_param_int ::
  "int \<Rightarrow> string option \<Rightarrow> string option \<Rightarrow> int \<Rightarrow> nat option \<Rightarrow> clic_globals \<Rightarrow>
   clic_exit + clic_globals" where
  "clic_add_param_int scope_id name descr default_value variable g =
     clic_add_param_or_arg scope_id name descr CLIC_INT 0
       (zero_param_or_arg\<lparr>scalar_default_value := default_value,
          scalar_variable := variable\<rparr>) g"

definition clic_add_param_string ::
  "int \<Rightarrow> string option \<Rightarrow> string option \<Rightarrow> string option \<Rightarrow> nat option \<Rightarrow> int \<Rightarrow>
   clic_globals \<Rightarrow> clic_exit + clic_globals" where
  "clic_add_param_string scope_id name descr default_value variable restrict g =
     clic_add_param_or_arg scope_id name descr CLIC_STRING 0
       (zero_param_or_arg\<lparr>string_default_value := default_value, string_variable := variable,
          restrict_to_declared_options := restrict\<rparr>) g"

definition clic_add_arg_int ::
  "int \<Rightarrow> string option \<Rightarrow> string option \<Rightarrow> nat option \<Rightarrow> clic_globals \<Rightarrow>
   clic_exit + clic_globals" where
  "clic_add_arg_int scope_id name descr variable g =
     clic_add_param_or_arg scope_id name descr CLIC_INT 1
       (zero_param_or_arg\<lparr>scalar_variable := variable\<rparr>) g"

definition clic_add_arg_string ::
  "int \<Rightarrow> string option \<Rightarrow> string option \<Rightarrow> nat option \<Rightarrow> int \<Rightarrow> clic_globals \<Rightarrow>
   clic_exit + clic_globals" where
  "clic_add_arg_string scope_id name descr variable restrict g =
     clic_add_param_or_arg scope_id name descr CLIC_STRING 1
       (zero_param_or_arg\<lparr>string_variable := variable,
          restrict_to_declared_options := restrict\<rparr>) g"

definition clic_add_string_option ::
  "int \<Rightarrow> string option \<Rightarrow> string option \<Rightarrow> clic_globals \<Rightarrow> clic_exit + clic_globals" where
  "clic_add_string_option scope_id name val g =
     and_then (clic_check_initialized_and_not_parsed g) (\<lambda>_.
     and_then (clic_check_subcommmand_declaration g scope_id None 1) (\<lambda>_.
     and_then (clic_check_param_or_arg_declaration g scope_id name 1) (\<lambda>_.
       Inr (g\<lparr>string_options := clic_add_to_list (string_options g)
             \<lparr>option_subcommand_id = scope_id, param_or_arg_name = name, option_value = val\<rparr>\<rparr>))))"

subsection \<open>Parsing\<close>

text \<open>
  The command line is the list of the \<^verbatim>\<open>argc\<close> tokens \<^verbatim>\<open>argv[0]\<close>, ..., \<^verbatim>\<open>argv[argc - 1]\<close>;
  \<^verbatim>\<open>argv[argc]\<close> is the null pointer that ends the array. The parser reads
  \<^verbatim>\<open>argv[i]\<close> only for \<open>i\<close> up to \<^verbatim>\<open>argc\<close> when the program name is present.
\<close>

definition argv_at :: "string list \<Rightarrow> nat \<Rightarrow> string option" where
  "argv_at argv i = (if i < length argv then Some (argv ! i) else None)"

text \<open>
  \<^verbatim>\<open>clic_parse_param_or_arg\<close>: the source returns 0 and touches nothing
  (\<^verbatim>\<open>TODO: check type correctness, correct value, store in variable\<close>).
\<close>

definition clic_parse_param_or_arg ::
  "clic_param_or_arg \<Rightarrow> string option \<Rightarrow> string option \<Rightarrow> nat" where
  "clic_parse_param_or_arg param_or_arg arg1 arg2 = 0"

text \<open>Subcommand detection: the first registered scope whose name is \<^verbatim>\<open>argv[1]\<close>.\<close>

definition detect_subcommand :: "clic_globals \<Rightarrow> string list \<Rightarrow> clic_scope \<times> nat" where
  "detect_subcommand g argv =
     (if length argv > 1 then
        (case find (\<lambda>scope. str_equal (Some (argv ! 1)) (subcommand_name scope))
                (subcommand_scopes g) of
           Some scope \<Rightarrow> (scope, 1)
         | None \<Rightarrow> (main_scope g, 0))
      else (main_scope g, 0))"

text \<open>The three syntaxes of a parameter token, and the name each one carries.\<close>

definition parameter_name :: "string \<Rightarrow> string option" where
  "parameter_name s =
     (if char_at s 0 = CHR ''-'' \<and> isalpha (char_at s 1) \<and> length s = 2 then Some (drop 1 s)
      else if take 5 s = ''--no-'' then Some (drop 5 s)
      else if take 2 s = ''--'' then Some (drop 2 s)
      else None)"

text \<open>
  The loop that eats parameters. It has no bound in the source, so the model is a
  partial function: \<open>None\<close> is a loop that never ends, \<open>Some (Inl e)\<close> an exit from
  inside the loop, \<open>Some (Inr n)\<close> the counter when the loop is left.
\<close>

partial_function (option) eat_parameters ::
  "clic_globals \<Rightarrow> clic_scope \<Rightarrow> string list \<Rightarrow> nat \<Rightarrow> (clic_exit + nat) option" where
  "eat_parameters g active_scope argv nb_processed_arguments =
     (case argv_at argv (1 + nb_processed_arguments) of
        None \<Rightarrow> Some (Inr nb_processed_arguments)
      | Some s \<Rightarrow>
          if s = ''--'' then Some (Inr (nb_processed_arguments + 1))
          else (case parameter_name s of
            None \<Rightarrow> Some (Inr nb_processed_arguments)
          | Some name \<Rightarrow>
              (case find (\<lambda>param. \<not> (subcommand_id active_scope \<noteq> param_subcommand_id param \<or>
                            \<not> str_equal (Some name) (param_name param)))
                      (params_and_args g) of
                 Some param \<Rightarrow>
                   eat_parameters g active_scope argv
                     (nb_processed_arguments +
                        clic_parse_param_or_arg param (Some s)
                          (argv_at argv (1 + nb_processed_arguments + 1)))
               | None \<Rightarrow>
                   if s = ''--help'' then Some (Inl EXIT_SUCCESS)
                   else if s = ''--version'' \<and> version (metadata g) \<noteq> None
                   then Some (Inl EXIT_SUCCESS)
                   else eat_parameters g active_scope argv nb_processed_arguments)))"

text \<open>The loop that eats named arguments, over the list of declarations.\<close>

fun eat_named_arguments ::
  "clic_scope \<Rightarrow> string list \<Rightarrow> clic_param_or_arg list \<Rightarrow> nat \<Rightarrow> nat" where
  "eat_named_arguments active_scope argv [] nb_processed_arguments = nb_processed_arguments"
| "eat_named_arguments active_scope argv (arg # args) nb_processed_arguments =
     (if subcommand_id active_scope \<noteq> param_subcommand_id arg \<or> is_required arg = 0
      then eat_named_arguments active_scope argv args nb_processed_arguments
      else eat_named_arguments active_scope argv args
             (nb_processed_arguments +
                clic_parse_param_or_arg arg (argv_at argv (1 + nb_processed_arguments)) None))"

text \<open>
  The build: \<^verbatim>\<open>CLIC_DUMP_SYNOPSIS\<close> defined, else \<^verbatim>\<open>CLIC_DUMP_OPTIONS\<close> defined, else
  neither. The memory holds the caller's \<^verbatim>\<open>int\<close> variables by address.
\<close>

datatype clic_build = CLIC_DUMP_SYNOPSIS | CLIC_DUMP_OPTIONS | CLIC_NORMAL

type_synonym memory = "nat \<Rightarrow> int"

definition store_int :: "nat option \<Rightarrow> int \<Rightarrow> memory \<Rightarrow> clic_exit + memory" where
  "store_int p v mem = (case p of None \<Rightarrow> Inl NULL_DEREFERENCE | Some a \<Rightarrow> Inr (mem(a := v)))"

text \<open>
  \<^verbatim>\<open>clic_parse\<close>. The trailing check for unnamed arguments is empty in the source
  (a \<^verbatim>\<open>TODO\<close>), and the cleanup frees the list nodes without changing a field of
  \<^verbatim>\<open>clic_globals\<close>; heap storage is not part of the model. The result is the returned
  count with the structure and the memory as the call leaves them.
\<close>

definition clic_parse ::
  "clic_build \<Rightarrow> clic_globals \<Rightarrow> string list \<Rightarrow> nat option \<Rightarrow> memory \<Rightarrow>
   (clic_exit + nat \<times> clic_globals \<times> memory) option" where
  "clic_parse build g argv subcommand_id_ptr mem =
     (case clic_check_initialized_and_not_parsed g of
        Inl e \<Rightarrow> Some (Inl e)
      | Inr _ \<Rightarrow>
          let g1 = g\<lparr>is_parsed := 1\<rparr> in
          (case build of
             CLIC_DUMP_SYNOPSIS \<Rightarrow> Some (Inl EXIT_SUCCESS)
           | CLIC_DUMP_OPTIONS \<Rightarrow> Some (Inl EXIT_SUCCESS)
           | CLIC_NORMAL \<Rightarrow>
               (case detect_subcommand g1 argv of (active_scope, n1) \<Rightarrow>
                (case store_int subcommand_id_ptr (subcommand_id active_scope) mem of
                   Inl e \<Rightarrow> Some (Inl e)
                 | Inr mem1 \<Rightarrow>
                     (case eat_parameters g1 active_scope argv n1 of
                        None \<Rightarrow> None
                      | Some (Inl e) \<Rightarrow> Some (Inl e)
                      | Some (Inr n2) \<Rightarrow>
                          Some (Inr (eat_named_arguments active_scope argv
                                       (params_and_args g1) n2, g1, mem1)))))))"





subsection \<open>The life cycle and the calls of a program\<close>

text \<open>
  The registry accepts declarations and a parse between the call of \<^verbatim>\<open>clic_init\<close> and the
  first call of \<^verbatim>\<open>clic_parse\<close>.
\<close>

definition declaring :: "clic_globals \<Rightarrow> bool" where
  "declaring g = (is_init g \<noteq> 0 \<and> is_parsed g = 0)"

definition lifecycle_message :: "clic_globals \<Rightarrow> string" where
  "lifecycle_message g =
     (if is_init g = 0 then ''clic has not been initialized''
      else ''clic has already parsed command line arguments'')"

text \<open>
  The parameter loop at a token it can neither skip nor leave: the token has the syntax
  of a parameter and either names a declared parameter of the active scope (the counter
  then grows by the 0 that \<^verbatim>\<open>clic_parse_param_or_arg\<close> returns) or names none and is not a
  served \<^verbatim>\<open>--help\<close> or \<^verbatim>\<open>--version\<close> (the counter is not touched).
\<close>

definition parameter_loop_stuck ::
  "clic_globals \<Rightarrow> clic_scope \<Rightarrow> string list \<Rightarrow> nat \<Rightarrow> bool" where
  "parameter_loop_stuck g active_scope argv n =
     (case argv_at argv (1 + n) of
        None \<Rightarrow> False
      | Some s \<Rightarrow>
          s \<noteq> ''--'' \<and>
          (case parameter_name s of
             None \<Rightarrow> False
           | Some name \<Rightarrow>
               (case find (\<lambda>param. \<not> (subcommand_id active_scope \<noteq> param_subcommand_id param \<or>
                            \<not> str_equal (Some name) (param_name param)))
                      (params_and_args g) of
                  Some param \<Rightarrow> True
                | None \<Rightarrow>
                    s \<noteq> ''--help'' \<and> \<not> (s = ''--version'' \<and> version (metadata g) \<noteq> None))))"

text \<open>
  The calls a program can make before it parses, as data, so that a start-up sequence
  such as the one of \<^verbatim>\<open>example.c\<close> is a list.
\<close>

datatype clic_call =
  Init "string option" "string option" "string option" "string option" int
  | Add_subcommand int "string option" "string option" int
  | Add_param_flag int char "string option" "nat option" int
  | Add_param_bool int "string option" "string option" int "nat option" int
  | Add_param_int int "string option" "string option" int "nat option"
  | Add_param_string int "string option" "string option" "string option" "nat option" int
  | Add_arg_int int "string option" "string option" "nat option"
  | Add_arg_string int "string option" "string option" "nat option" int
  | Add_string_option int "string option" "string option"

fun run_call :: "clic_call \<Rightarrow> clic_globals \<Rightarrow> clic_exit + clic_globals" where
  "run_call (Init program vers lic descr accept) g = clic_init program vers lic descr accept g"
| "run_call (Add_subcommand scope_id name descr accept) g =
     clic_add_subcommand scope_id name descr accept g"
| "run_call (Add_param_flag scope_id name descr variable msk) g =
     clic_add_param_flag scope_id name descr variable msk g"
| "run_call (Add_param_bool scope_id name descr default_value variable msk) g =
     clic_add_param_bool scope_id name descr default_value variable msk g"
| "run_call (Add_param_int scope_id name descr default_value variable) g =
     clic_add_param_int scope_id name descr default_value variable g"
| "run_call (Add_param_string scope_id name descr default_value variable restrict) g =
     clic_add_param_string scope_id name descr default_value variable restrict g"
| "run_call (Add_arg_int scope_id name descr variable) g =
     clic_add_arg_int scope_id name descr variable g"
| "run_call (Add_arg_string scope_id name descr variable restrict) g =
     clic_add_arg_string scope_id name descr variable restrict g"
| "run_call (Add_string_option scope_id name val) g =
     clic_add_string_option scope_id name val g"

fun is_Init :: "clic_call \<Rightarrow> bool" where
  "is_Init (Init program vers lic descr accept) = True"
| "is_Init c = False"

fun run_calls :: "clic_call list \<Rightarrow> clic_globals \<Rightarrow> clic_exit + clic_globals" where
  "run_calls [] g = Inr g"
| "run_calls (c # cs) g = and_then (run_call c g) (run_calls cs)"

text \<open>The registries a program can build, from the zero-initialised static structure.\<close>

inductive reachable :: "clic_globals \<Rightarrow> bool" where
  start: "reachable clic_globals_zero"
| called: "reachable g \<Longrightarrow> run_call c g = Inr g' \<Longrightarrow> reachable g'"
| parsed: "reachable g \<Longrightarrow> clic_parse build g argv p mem = Some (Inr (n, g', mem')) \<Longrightarrow>
     reachable g'"

definition registry_of :: "clic_call list \<Rightarrow> clic_globals" where
  "registry_of cs =
     (case run_calls cs clic_globals_zero of Inl e \<Rightarrow> clic_globals_zero | Inr g \<Rightarrow> g)"

subsection \<open>Sample programs\<close>

text \<open>
  The declarations of \<^verbatim>\<open>example.c\<close> (its variable \<^verbatim>\<open>verbose\<close> at address 0), and four
  small registries: only initialised, with one subcommand, with a restricted string
  parameter and its two values, and with an integer parameter.
\<close>

definition demo_calls :: "clic_call list" where
  "demo_calls =
     [Init (Some ''demo'') (Some ''1.0.0'') (Some ''GPLv3'')
        (Some ''Dumb program showcasing clic.h'') 0,
      Add_param_flag 0 (CHR ''v'') (Some ''increase verbosity'') (Some 0) 0]"

definition init_calls :: "clic_call list" where
  "init_calls = [Init (Some ''prog'') (Some ''1.0.0'') None None 0]"

definition build_calls :: "clic_call list" where
  "build_calls = init_calls @ [Add_subcommand 1 (Some ''build'') None 0]"

definition mode_calls :: "clic_call list" where
  "mode_calls = init_calls @
     [Add_param_string 0 (Some ''mode'') None None (Some 0) 1,
      Add_string_option 0 (Some ''mode'') (Some ''fast''),
      Add_string_option 0 (Some ''mode'') (Some ''slow'')]"

definition count_calls :: "clic_call list" where
  "count_calls = init_calls @ [Add_param_int 0 (Some ''count'') None 0 (Some 0)]"


section \<open>Properties\<close>

subsection \<open>Evaluation and basic facts\<close>

lemma and_then_Inl [simp]: "and_then (Inl e) f = Inl e"
  by (simp add: and_then_def)

lemma and_then_Inr [simp]: "and_then (Inr x) f = f x"
  by (simp add: and_then_def)

lemma and_then_fail [simp]: "and_then (clic_fail m) f = clic_fail m"
  by (simp add: clic_fail_def)

lemmas clic_defs =
  clic_fail_def Let_def zero_scope_def zero_param_or_arg_def clic_globals_zero_def
  clic_add_to_list_def isalpha_def char_at_def str_equal_def
  clic_check_initialized_and_not_parsed_def clic_check_name_correctness_def
  clic_check_param_or_arg_declaration_def clic_check_subcommmand_declaration_def
  clic_init_def clic_add_subcommand_def clic_add_param_or_arg_def clic_add_param_flag_def
  clic_add_param_bool_def clic_add_param_int_def clic_add_param_string_def
  clic_add_arg_int_def clic_add_arg_string_def clic_add_string_option_def
  argv_at_def clic_parse_param_or_arg_def detect_subcommand_def parameter_name_def
  store_int_def

lemmas sample_defs =
  demo_calls_def init_calls_def build_calls_def mode_calls_def count_calls_def

lemma check_name_chars_eq:
  "check_name_chars s =
     (if list_all (\<lambda>c. isalpha c \<or> c = CHR ''-'' \<or> c = CHR ''_'') s then Inr ()
      else clic_fail ''clic: invalid parameter/argument name'')"
  by (induction s) auto

lemma check_initialized_eq:
  "clic_check_initialized_and_not_parsed g =
     (if declaring g then Inr () else Inl (EXIT_FAILURE (lifecycle_message g)))"
  by (simp add: clic_check_initialized_and_not_parsed_def declaring_def lifecycle_message_def
      clic_fail_def)

subsection \<open>The parameter loop\<close>

text \<open>
  A loop that returns was not stuck: by fixpoint induction, since a stuck iteration
  calls the loop again with the arguments it was called with.
\<close>

lemma eat_parameters_Some_not_stuck:
  "eat_parameters g a argv n = Some y \<Longrightarrow> \<not> parameter_loop_stuck g a argv n"
proof (induct rule: eat_parameters.raw_induct[rotated 1, consumes 1])
  case (1 f g a argv n y)
  show ?case
  proof
    assume st: "parameter_loop_stuck g a argv n"
    from st 1(2) have "f g a argv n = Some y"
      by (auto simp: parameter_loop_stuck_def clic_parse_param_or_arg_def
          split: option.splits if_splits)
    then have "\<not> parameter_loop_stuck g a argv n" by (rule 1(1))
    with st show False by simp
  qed
qed

lemma eat_parameters_stuck:
  "parameter_loop_stuck g a argv n \<Longrightarrow> eat_parameters g a argv n = None"
  using eat_parameters_Some_not_stuck by (cases "eat_parameters g a argv n") auto

lemma eat_parameters_not_stuck:
  "\<not> parameter_loop_stuck g a argv n \<Longrightarrow>
   eat_parameters g a argv n =
     (case argv_at argv (1 + n) of
        None \<Rightarrow> Some (Inr n)
      | Some s \<Rightarrow>
          if s = ''--'' then Some (Inr (n + 1))
          else if parameter_name s = None then Some (Inr n)
          else Some (Inl EXIT_SUCCESS))"
  by (subst eat_parameters.simps)
     (auto simp: parameter_loop_stuck_def split: option.splits if_splits)

lemma eat_parameters_count:
  "eat_parameters g a argv n = Some (Inr m) \<Longrightarrow> n \<le> m"
proof -
  assume r: "eat_parameters g a argv n = Some (Inr m)"
  then have "\<not> parameter_loop_stuck g a argv n" by (rule eat_parameters_Some_not_stuck)
  from eat_parameters_not_stuck[OF this] r show ?thesis
    by (auto split: option.splits if_splits)
qed

lemma eat_named_arguments_eq: "eat_named_arguments a argv args n = n"
  by (induction args arbitrary: n) (auto simp: clic_parse_param_or_arg_def)

text \<open>\<^verbatim>\<open>clic_parse\<close> in a normal build, on a registry that passes the entry check.\<close>

lemma clic_parse_normal:
  assumes "declaring g"
  shows "clic_parse CLIC_NORMAL g argv (Some p) mem =
     (case eat_parameters (g\<lparr>is_parsed := 1\<rparr>) (fst (detect_subcommand g argv)) argv
             (snd (detect_subcommand g argv)) of
        None \<Rightarrow> None
      | Some (Inl e) \<Rightarrow> Some (Inl e)
      | Some (Inr n2) \<Rightarrow>
          Some (Inr (n2, g\<lparr>is_parsed := 1\<rparr>,
                     mem(p := subcommand_id (fst (detect_subcommand g argv))))))"
proof -
  have d: "detect_subcommand (g\<lparr>is_parsed := 1\<rparr>) argv = detect_subcommand g argv"
    by (simp add: detect_subcommand_def split: option.splits)
  obtain a n1 where dn: "detect_subcommand g argv = (a, n1)"
    by (cases "detect_subcommand g argv")
  from assms show ?thesis
    by (cases "eat_parameters (g\<lparr>is_parsed := 1\<rparr>) a argv n1")
       (auto simp add: clic_parse_def check_initialized_eq d dn store_int_def
          eat_named_arguments_eq Let_def split: sum.splits)
qed

lemma clic_parse_stuck:
  assumes "declaring g"
    and "parameter_loop_stuck (g\<lparr>is_parsed := 1\<rparr>) (fst (detect_subcommand g argv)) argv
           (snd (detect_subcommand g argv))"
  shows "clic_parse CLIC_NORMAL g argv (Some p) mem = None"
  using assms by (simp add: clic_parse_normal eat_parameters_stuck)

lemma clic_parse_not_stuck:
  assumes "declaring g"
    and "\<not> parameter_loop_stuck (g\<lparr>is_parsed := 1\<rparr>) (fst (detect_subcommand g argv)) argv
           (snd (detect_subcommand g argv))"
  shows "clic_parse CLIC_NORMAL g argv (Some p) mem =
     (case argv_at argv (1 + snd (detect_subcommand g argv)) of
        None \<Rightarrow> Some (Inr (snd (detect_subcommand g argv), g\<lparr>is_parsed := 1\<rparr>,
                 mem(p := subcommand_id (fst (detect_subcommand g argv)))))
      | Some s \<Rightarrow>
          if s = ''--''
          then Some (Inr (snd (detect_subcommand g argv) + 1, g\<lparr>is_parsed := 1\<rparr>,
                 mem(p := subcommand_id (fst (detect_subcommand g argv)))))
          else if parameter_name s = None
          then Some (Inr (snd (detect_subcommand g argv), g\<lparr>is_parsed := 1\<rparr>,
                 mem(p := subcommand_id (fst (detect_subcommand g argv)))))
          else Some (Inl EXIT_SUCCESS))"
  using assms by (simp add: clic_parse_normal eat_parameters_not_stuck split: option.splits)

subsection \<open>The sample registries\<close>

lemma registry_of_demo:
  "registry_of demo_calls =
     \<lparr>is_init = 1, is_parsed = 0, flag_names = [''v''],
      params_and_args =
        [\<lparr>param_subcommand_id = 0, param_name = Some ''v'',
          param_description = Some ''increase verbosity'', param_type = CLIC_FLAG,
          is_required = 0, scalar_default_value = 0, scalar_variable = Some 0, mask = 0,
          string_default_value = None, string_variable = None,
          restrict_to_declared_options = 0\<rparr>],
      string_options = [], subcommand_scopes = [],
      metadata = \<lparr>version = Some ''1.0.0'', license = Some ''GPLv3''\<rparr>,
      main_scope = \<lparr>subcommand_id = 0, subcommand_name = Some ''demo'',
        description = Some ''Dumb program showcasing clic.h'',
        accept_unnamed_arguments = 0\<rparr>\<rparr>"
  by (simp add: registry_of_def sample_defs clic_defs)

lemma registry_of_init:
  "registry_of init_calls =
     \<lparr>is_init = 1, is_parsed = 0, flag_names = [], params_and_args = [],
      string_options = [], subcommand_scopes = [],
      metadata = \<lparr>version = Some ''1.0.0'', license = None\<rparr>,
      main_scope = \<lparr>subcommand_id = 0, subcommand_name = Some ''prog'', description = None,
        accept_unnamed_arguments = 0\<rparr>\<rparr>"
  by (simp add: registry_of_def sample_defs clic_defs)

lemma registry_of_build:
  "registry_of build_calls =
     \<lparr>is_init = 1, is_parsed = 0, flag_names = [], params_and_args = [],
      string_options = [],
      subcommand_scopes = [\<lparr>subcommand_id = 1, subcommand_name = Some ''build'',
        description = None, accept_unnamed_arguments = 0\<rparr>],
      metadata = \<lparr>version = Some ''1.0.0'', license = None\<rparr>,
      main_scope = \<lparr>subcommand_id = 0, subcommand_name = Some ''prog'', description = None,
        accept_unnamed_arguments = 0\<rparr>\<rparr>"
  by (simp add: registry_of_def sample_defs clic_defs)

lemma registry_of_mode:
  "registry_of mode_calls =
     \<lparr>is_init = 1, is_parsed = 0, flag_names = [],
      params_and_args =
        [\<lparr>param_subcommand_id = 0, param_name = Some ''mode'', param_description = None,
          param_type = CLIC_STRING, is_required = 0, scalar_default_value = 0,
          scalar_variable = None, mask = 0, string_default_value = None,
          string_variable = Some 0, restrict_to_declared_options = 1\<rparr>],
      string_options =
        [\<lparr>option_subcommand_id = 0, param_or_arg_name = Some ''mode'',
          option_value = Some ''fast''\<rparr>,
         \<lparr>option_subcommand_id = 0, param_or_arg_name = Some ''mode'',
          option_value = Some ''slow''\<rparr>],
      subcommand_scopes = [],
      metadata = \<lparr>version = Some ''1.0.0'', license = None\<rparr>,
      main_scope = \<lparr>subcommand_id = 0, subcommand_name = Some ''prog'', description = None,
        accept_unnamed_arguments = 0\<rparr>\<rparr>"
  by (simp add: registry_of_def sample_defs clic_defs)

lemma registry_of_count:
  "registry_of count_calls =
     \<lparr>is_init = 1, is_parsed = 0, flag_names = [],
      params_and_args =
        [\<lparr>param_subcommand_id = 0, param_name = Some ''count'', param_description = None,
          param_type = CLIC_INT, is_required = 0, scalar_default_value = 0,
          scalar_variable = Some 0, mask = 0, string_default_value = None,
          string_variable = None, restrict_to_declared_options = 0\<rparr>],
      string_options = [], subcommand_scopes = [],
      metadata = \<lparr>version = Some ''1.0.0'', license = None\<rparr>,
      main_scope = \<lparr>subcommand_id = 0, subcommand_name = Some ''prog'', description = None,
        accept_unnamed_arguments = 0\<rparr>\<rparr>"
  by (simp add: registry_of_def sample_defs clic_defs)

lemmas sample_registries =
  registry_of_demo registry_of_init registry_of_build registry_of_mode registry_of_count

lemmas parse_eval =
  declaring_def parameter_loop_stuck_def detect_subcommand_def argv_at_def
  parameter_name_def char_at_def isalpha_def str_equal_def


subsection \<open>The name validator\<close>

text \<open>
  Claim C8. \<^verbatim>\<open>clic_check_name_correctness\<close> accepts a name if and only if it is a
  non-empty string whose first character is alphabetic and whose characters are all
  alphabetic, \<^verbatim>\<open>-\<close> or \<^verbatim>\<open>_\<close>; any other name, the null pointer included, ends the
  process through \<^verbatim>\<open>clic_fail\<close> (a configuration error).
\<close>

theorem name_validator:
  "clic_check_name_correctness name =
     (if \<exists>s. name = Some s \<and> s \<noteq> [] \<and> isalpha (hd s) \<and>
             (\<forall>c \<in> set s. isalpha c \<or> c = CHR ''-'' \<or> c = CHR ''_'')
      then Inr ()
      else clic_fail ''clic: invalid parameter/argument name'')"
proof (cases name)
  case None
  then show ?thesis by (simp add: clic_check_name_correctness_def)
next
  case (Some s)
  have nul: "\<not> isalpha (CHR 0x00)" by (simp add: isalpha_def)
  show ?thesis
  proof (cases s)
    case Nil
    with Some nul show ?thesis by (simp add: clic_check_name_correctness_def char_at_def)
  next
    case (Cons c cs)
    with Some show ?thesis
      by (auto simp add: clic_check_name_correctness_def char_at_def check_name_chars_eq
          list_all_iff simp del: check_name_chars.simps)
  qed
qed

theorem name_validator_witness:
  "clic_check_name_correctness (Some ''dry-run_x'') = Inr () \<and>
   is_ConfigurationError (clic_check_name_correctness (Some ''-v'')) \<and>
   is_ConfigurationError (clic_check_name_correctness (Some ''a.b'')) \<and>
   is_ConfigurationError (clic_check_name_correctness (Some '''')) \<and>
   is_ConfigurationError (clic_check_name_correctness None)"
  using name_validator [of "Some ''dry-run_x''"] name_validator [of "Some ''-v''"]
    name_validator [of "Some ''a.b''"] name_validator [of "Some ''''"]
    name_validator [of None]
  by (simp add: isalpha_def clic_fail_def)

subsection \<open>What the parser does with a parameter token\<close>

text \<open>
  Claim C1 (the code departs from it). \<^verbatim>\<open>clic_parse\<close> does not return on every token
  sequence: on the registry that \<^verbatim>\<open>clic_init\<close> alone builds, the tokens
  \<^verbatim>\<open>prog --x\<close> keep the parameter loop at \<^verbatim>\<open>--x\<close> for ever, since the counter
  is not advanced for a parameter that is not recognised.
\<close>

theorem parse_unrecognised_parameter_never_returns:
  "clic_parse CLIC_NORMAL (registry_of init_calls) [''prog'', ''--x''] (Some p) mem = None"
  by (rule clic_parse_stuck) (simp_all add: registry_of_init parse_eval)

text \<open>
  Claim C2 (the code departs from it). On the declarations of \<^verbatim>\<open>example.c\<close>, the
  token \<^verbatim>\<open>-v\<close> is matched to the flag, \<^verbatim>\<open>clic_parse_param_or_arg\<close> reports 0 tokens
  used for it, and the call of \<^verbatim>\<open>clic_parse\<close> never returns; the variable of the flag
  (address 0) is written by no call: a parse of \<^verbatim>\<open>demo\<close> alone returns 0 with the
  memory changed at the address of the subcommand identifier only.
\<close>

theorem flag_token_not_consumed:
  "clic_parse CLIC_NORMAL (registry_of demo_calls) [''demo'', ''-v''] (Some 1) mem = None \<and>
   clic_parse_param_or_arg (hd (params_and_args (registry_of demo_calls))) (Some ''-v'') None = 0 \<and>
   clic_parse CLIC_NORMAL (registry_of demo_calls) [''demo''] (Some 1) mem =
     Some (Inr (0, (registry_of demo_calls)\<lparr>is_parsed := 1\<rparr>, mem(1 := 0)))"
proof -
  have a: "clic_parse CLIC_NORMAL (registry_of demo_calls) [''demo'', ''-v''] (Some 1) mem = None"
    by (rule clic_parse_stuck) (simp_all add: registry_of_demo parse_eval)
  have b: "clic_parse_param_or_arg (hd (params_and_args (registry_of demo_calls)))
             (Some ''-v'') None = 0"
    by (simp add: clic_parse_param_or_arg_def)
  have c: "clic_parse CLIC_NORMAL (registry_of demo_calls) [''demo''] (Some 1) mem =
     Some (Inr (0, (registry_of demo_calls)\<lparr>is_parsed := 1\<rparr>, mem(1 := 0)))"
    by (subst clic_parse_not_stuck) (simp_all add: registry_of_demo parse_eval)
  from a b c show ?thesis by simp
qed

text \<open>
  Claim C3 (the code departs from it). With a restricted string parameter \<^verbatim>\<open>mode\<close>
  whose values are \<^verbatim>\<open>fast\<close> and \<^verbatim>\<open>slow\<close>, the token \<^verbatim>\<open>--mode\<close> is matched but
  nothing is stored, no token is consumed and no error is raised, whether the value
  that follows is registered, is not registered, or is absent: each of the three calls
  never returns.
\<close>

theorem string_parameter_not_consumed:
  "clic_parse CLIC_NORMAL (registry_of mode_calls) [''prog'', ''--mode'', ''slow''] (Some 1) mem = None \<and>
   clic_parse CLIC_NORMAL (registry_of mode_calls) [''prog'', ''--mode'', ''bogus''] (Some 1) mem = None \<and>
   clic_parse CLIC_NORMAL (registry_of mode_calls) [''prog'', ''--mode''] (Some 1) mem = None \<and>
   clic_parse_param_or_arg (hd (params_and_args (registry_of mode_calls)))
     (Some ''--mode'') (Some ''bogus'') = 0"
proof -
  have a: "clic_parse CLIC_NORMAL (registry_of mode_calls) [''prog'', ''--mode'', ''slow'']
             (Some 1) mem = None"
    by (rule clic_parse_stuck) (simp_all add: registry_of_mode parse_eval)
  have b: "clic_parse CLIC_NORMAL (registry_of mode_calls) [''prog'', ''--mode'', ''bogus'']
             (Some 1) mem = None"
    by (rule clic_parse_stuck) (simp_all add: registry_of_mode parse_eval)
  have c: "clic_parse CLIC_NORMAL (registry_of mode_calls) [''prog'', ''--mode'']
             (Some 1) mem = None"
    by (rule clic_parse_stuck) (simp_all add: registry_of_mode parse_eval)
  have d: "clic_parse_param_or_arg (hd (params_and_args (registry_of mode_calls)))
             (Some ''--mode'') (Some ''bogus'') = 0"
    by (simp add: clic_parse_param_or_arg_def)
  from a b c d show ?thesis by simp
qed


subsection \<open>The life cycle of the registry\<close>

lemma and_then_Inr_iff: "and_then r f = Inr y \<longleftrightarrow> (\<exists>x. r = Inr x \<and> f x = Inr y)"
  by (cases r) auto

lemma clic_add_param_or_arg_not_declaring:
  "\<not> declaring g \<Longrightarrow>
   clic_add_param_or_arg scope_id name descr type required data g =
     Inl (EXIT_FAILURE (lifecycle_message g))"
  by (simp add: clic_add_param_or_arg_def check_initialized_eq)

lemma clic_add_param_or_arg_Inr:
  "clic_add_param_or_arg scope_id name descr type required data g = Inr g' \<Longrightarrow>
   declaring g \<and>
   g' = g\<lparr>params_and_args := params_and_args g @
          [data\<lparr>param_subcommand_id := scope_id, param_name := name,
             param_description := descr, param_type := type, is_required := required\<rparr>]\<rparr>"
  by (auto simp: clic_add_param_or_arg_def and_then_Inr_iff clic_add_to_list_def
      check_initialized_eq split: if_splits)

lemma run_call_not_declaring:
  "\<not> declaring g \<Longrightarrow> \<not> is_Init c \<Longrightarrow>
   run_call c g = Inl (EXIT_FAILURE (lifecycle_message g))"
proof (cases c)
  case (Add_param_flag scope_id name descr variable msk)
  assume nd: "\<not> declaring g"
  let ?g1 = "g\<lparr>flag_names := clic_add_to_list (flag_names g)
                 (if name = CHR 0x00 then [] else [name])\<rparr>"
  from nd have "\<not> declaring ?g1" by (simp add: declaring_def)
  then have "clic_add_param_or_arg scope_id (Some (if name = CHR 0x00 then [] else [name]))
      descr CLIC_FLAG 0
      (zero_param_or_arg\<lparr>scalar_default_value := 0, scalar_variable := variable,
         mask := msk\<rparr>) ?g1 = Inl (EXIT_FAILURE (lifecycle_message ?g1))"
    by (rule clic_add_param_or_arg_not_declaring)
  with Add_param_flag show ?thesis
    by (simp add: clic_add_param_flag_def Let_def lifecycle_message_def)
qed (simp_all add: clic_add_subcommand_def clic_add_param_bool_def clic_add_param_int_def
      clic_add_param_string_def clic_add_arg_int_def clic_add_arg_string_def
      clic_add_string_option_def clic_add_param_or_arg_not_declaring check_initialized_eq)

lemma clic_parse_not_declaring:
  "\<not> declaring g \<Longrightarrow>
   clic_parse build g argv p mem = Some (Inl (EXIT_FAILURE (lifecycle_message g)))"
  by (simp add: clic_parse_def check_initialized_eq)

lemma clic_parse_Inr:
  assumes "clic_parse build g argv p mem = Some (Inr (n, g', mem'))"
  shows "declaring g \<and> build = CLIC_NORMAL \<and> g' = g\<lparr>is_parsed := 1\<rparr> \<and>
         snd (detect_subcommand g argv) \<le> n \<and>
         (\<exists>a. p = Some a \<and> mem' = mem(a := subcommand_id (fst (detect_subcommand g argv))))"
proof -
  from assms have d: "declaring g"
    using clic_parse_not_declaring[of g build argv p mem] by auto
  from assms d have b: "build = CLIC_NORMAL"
    by (cases build) (simp_all add: clic_parse_def check_initialized_eq)
  from assms d b obtain a where p: "p = Some a"
    by (cases p) (auto simp: clic_parse_def check_initialized_eq store_int_def Let_def
        split: prod.splits)
  let ?r = "eat_parameters (g\<lparr>is_parsed := 1\<rparr>) (fst (detect_subcommand g argv)) argv
              (snd (detect_subcommand g argv))"
  from assms b p have e: "?r = Some (Inr n)" and r: "g' = g\<lparr>is_parsed := 1\<rparr>"
    and m: "mem' = mem(a := subcommand_id (fst (detect_subcommand g argv)))"
    by (auto simp: clic_parse_normal[OF d] split: option.splits sum.splits)
  from e have "snd (detect_subcommand g argv) \<le> n" by (rule eat_parameters_count)
  with d b p r m show ?thesis by simp
qed

lemma parse_demo_alone:
  "clic_parse CLIC_NORMAL (registry_of demo_calls) [''demo''] (Some 1) mem =
     Some (Inr (0, (registry_of demo_calls)\<lparr>is_parsed := 1\<rparr>, mem(1 := 0)))"
  by (subst clic_parse_not_stuck) (simp_all add: registry_of_demo parse_eval)

lemma parse_build_subcommand:
  "clic_parse CLIC_NORMAL (registry_of build_calls) [''prog'', ''build''] (Some 3) mem =
     Some (Inr (1, (registry_of build_calls)\<lparr>is_parsed := 1\<rparr>, mem(3 := 1)))"
  by (subst clic_parse_not_stuck) (simp_all add: registry_of_build parse_eval)

text \<open>
  Claim C5. The registry has three states: not initialised, declaring (initialised and
  not parsed) and parsed. Outside the declaring state every declaration call
  (\<^verbatim>\<open>clic_add_subcommand\<close>, the four \<^verbatim>\<open>clic_add_param_*\<close>, the two \<^verbatim>\<open>clic_add_arg_*\<close>,
  \<^verbatim>\<open>clic_add_string_option\<close>) and \<^verbatim>\<open>clic_parse\<close>, in every build, end in \<^verbatim>\<open>clic_fail\<close>
  with the message of the life cycle check. A call of \<^verbatim>\<open>clic_parse\<close> that returns
  started in the declaring state and leaves the registry parsed, where a second parse
  and every declaration fail. The static structure starts not initialised, and
  \<^verbatim>\<open>clic_init\<close> on it gives a declaring registry.
\<close>

theorem registry_lifecycle:
  "(\<not> declaring g \<longrightarrow> \<not> is_Init c \<longrightarrow>
      run_call c g = Inl (EXIT_FAILURE (lifecycle_message g)) \<and>
      is_ConfigurationError (run_call c g)) \<and>
   (\<not> declaring g \<longrightarrow>
      clic_parse build g argv p mem = Some (Inl (EXIT_FAILURE (lifecycle_message g)))) \<and>
   (clic_parse build g argv p mem = Some (Inr (n, g', mem')) \<longrightarrow>
      declaring g \<and> is_init g' \<noteq> 0 \<and> is_parsed g' \<noteq> 0 \<and>
      clic_parse build_b g' argv_b p_b mem_b =
        Some (Inl (EXIT_FAILURE ''clic has already parsed command line arguments'')) \<and>
      (\<not> is_Init c \<longrightarrow>
         run_call c g' =
           Inl (EXIT_FAILURE ''clic has already parsed command line arguments''))) \<and>
   \<not> declaring clic_globals_zero \<and>
   (\<forall>g0. clic_init program vers lic descr accept clic_globals_zero = Inr g0 \<longrightarrow> declaring g0)"
proof -
  have a: "\<not> declaring g \<Longrightarrow> \<not> is_Init c \<Longrightarrow>
      run_call c g = Inl (EXIT_FAILURE (lifecycle_message g)) \<and>
      is_ConfigurationError (run_call c g)"
    by (simp add: run_call_not_declaring)
  have b: "\<not> declaring g \<Longrightarrow>
      clic_parse build g argv p mem = Some (Inl (EXIT_FAILURE (lifecycle_message g)))"
    by (rule clic_parse_not_declaring)
  have c: "declaring g \<and> is_init g' \<noteq> 0 \<and> is_parsed g' \<noteq> 0 \<and>
      clic_parse build_b g' argv_b p_b mem_b =
        Some (Inl (EXIT_FAILURE ''clic has already parsed command line arguments'')) \<and>
      (\<not> is_Init c \<longrightarrow>
         run_call c g' =
           Inl (EXIT_FAILURE ''clic has already parsed command line arguments''))"
    if r: "clic_parse build g argv p mem = Some (Inr (n, g', mem'))"
  proof -
    from clic_parse_Inr[OF r] have d: "declaring g" and g': "g' = g\<lparr>is_parsed := 1\<rparr>"
      by simp_all
    from d g' have i: "is_init g' \<noteq> 0" and q: "is_parsed g' \<noteq> 0"
      by (simp_all add: declaring_def)
    from i q have nd: "\<not> declaring g'"
      and m: "lifecycle_message g' = ''clic has already parsed command line arguments''"
      by (simp_all add: declaring_def lifecycle_message_def)
    from nd m have "clic_parse build_b g' argv_b p_b mem_b =
        Some (Inl (EXIT_FAILURE ''clic has already parsed command line arguments''))"
      using clic_parse_not_declaring[of g' build_b argv_b p_b mem_b] by simp
    moreover from nd m have "\<not> is_Init c \<longrightarrow> run_call c g' =
        Inl (EXIT_FAILURE ''clic has already parsed command line arguments'')"
      using run_call_not_declaring[of g' c] by simp
    ultimately show ?thesis using d i q by simp
  qed
  have d: "\<not> declaring clic_globals_zero"
    by (simp add: declaring_def clic_globals_zero_def)
  have e: "\<forall>g0. clic_init program vers lic descr accept clic_globals_zero = Inr g0 \<longrightarrow>
      declaring g0"
    by (auto simp: clic_init_def declaring_def clic_globals_zero_def)
  from a b c d e show ?thesis by blast
qed

theorem registry_lifecycle_witness:
  "\<not> declaring clic_globals_zero \<and>
   \<not> is_Init (Add_subcommand 1 (Some ''build'') None 0) \<and>
   run_call (Add_subcommand 1 (Some ''build'') None 0) clic_globals_zero =
     Inl (EXIT_FAILURE ''clic has not been initialized'') \<and>
   clic_parse CLIC_NORMAL clic_globals_zero [''demo''] (Some 1) (\<lambda>a. 5) =
     Some (Inl (EXIT_FAILURE ''clic has not been initialized'')) \<and>
   clic_parse CLIC_NORMAL (registry_of demo_calls) [''demo''] (Some 1) (\<lambda>a. 5) =
     Some (Inr (0, (registry_of demo_calls)\<lparr>is_parsed := 1\<rparr>, (\<lambda>a. 5)(1 := 0))) \<and>
   clic_parse CLIC_NORMAL ((registry_of demo_calls)\<lparr>is_parsed := 1\<rparr>) [''demo''] (Some 1)
       ((\<lambda>a. 5)(1 := 0)) =
     Some (Inl (EXIT_FAILURE ''clic has already parsed command line arguments'')) \<and>
   run_call (Add_subcommand 1 (Some ''build'') None 0)
       ((registry_of demo_calls)\<lparr>is_parsed := 1\<rparr>) =
     Inl (EXIT_FAILURE ''clic has already parsed command line arguments'') \<and>
   declaring (registry_of demo_calls)"
  using registry_lifecycle [where g = clic_globals_zero
      and c = "Add_subcommand 1 (Some ''build'') None 0" and build = CLIC_NORMAL
      and argv = "[''demo'']" and p = "Some 1" and mem = "\<lambda>a. 5"]
    registry_lifecycle [where g = "registry_of demo_calls"
      and c = "Add_subcommand 1 (Some ''build'') None 0" and build = CLIC_NORMAL
      and argv = "[''demo'']" and p = "Some 1" and mem = "\<lambda>a. 5" and n = 0
      and g' = "(registry_of demo_calls)\<lparr>is_parsed := 1\<rparr>" and mem' = "(\<lambda>a. 5)(1 := 0)"
      and build_b = CLIC_NORMAL and argv_b = "[''demo'']" and p_b = "Some 1"
      and mem_b = "(\<lambda>a. 5)(1 := 0)"]
    parse_demo_alone [of "\<lambda>a. 5"]
  by (simp add: lifecycle_message_def clic_globals_zero_def)


subsection \<open>Registries a program can build\<close>

lemma str_equal_Some: "str_equal (Some x) b \<longleftrightarrow> b = Some x"
  by (cases b) (auto simp: str_equal_def)

lemma str_equal_Some2: "str_equal a (Some y) \<longleftrightarrow> a = Some y"
  by (cases a) (auto simp: str_equal_def)

lemma run_call_main_scope_id:
  assumes "run_call c g = Inr g'" and "subcommand_id (main_scope g) = 0"
  shows "subcommand_id (main_scope g') = 0"
proof (cases c)
  case (Init program vers lic descr accept)
  with assms show ?thesis by (auto simp: clic_init_def zero_scope_def)
next
  case (Add_subcommand scope_id name descr accept)
  with assms show ?thesis by (auto simp: clic_add_subcommand_def and_then_Inr_iff)
next
  case (Add_param_flag scope_id name descr variable msk)
  with assms show ?thesis
    by (auto simp: clic_add_param_flag_def Let_def dest!: clic_add_param_or_arg_Inr)
next
  case (Add_param_bool scope_id name descr default_value variable msk)
  with assms show ?thesis
    by (auto simp: clic_add_param_bool_def dest!: clic_add_param_or_arg_Inr)
next
  case (Add_param_int scope_id name descr default_value variable)
  with assms show ?thesis
    by (auto simp: clic_add_param_int_def dest!: clic_add_param_or_arg_Inr)
next
  case (Add_param_string scope_id name descr default_value variable restrict)
  with assms show ?thesis
    by (auto simp: clic_add_param_string_def dest!: clic_add_param_or_arg_Inr)
next
  case (Add_arg_int scope_id name descr variable)
  with assms show ?thesis
    by (auto simp: clic_add_arg_int_def dest!: clic_add_param_or_arg_Inr)
next
  case (Add_arg_string scope_id name descr variable restrict)
  with assms show ?thesis
    by (auto simp: clic_add_arg_string_def dest!: clic_add_param_or_arg_Inr)
next
  case (Add_string_option scope_id name val)
  with assms show ?thesis by (auto simp: clic_add_string_option_def and_then_Inr_iff)
qed

lemma reachable_main_scope_id: "reachable g \<Longrightarrow> subcommand_id (main_scope g) = 0"
proof (induction rule: reachable.induct)
  case start
  show ?case by (simp add: clic_globals_zero_def zero_scope_def)
next
  case (called g c g')
  then show ?case by (auto intro: run_call_main_scope_id)
next
  case (parsed g build argv p mem n g' mem')
  from clic_parse_Inr[OF parsed.hyps(2)] parsed.IH show ?case by simp
qed

lemma run_calls_reachable:
  "reachable g \<Longrightarrow> run_calls cs g = Inr g' \<Longrightarrow> reachable g'"
proof (induction cs arbitrary: g)
  case Nil
  then show ?case by simp
next
  case (Cons c cs)
  from Cons.prems(2) obtain g1 where c: "run_call c g = Inr g1" and r: "run_calls cs g1 = Inr g'"
    by (auto simp: and_then_Inr_iff)
  from Cons.prems(1) c have "reachable g1" by (rule reachable.called)
  from Cons.IH[OF this r] show ?case .
qed

lemma run_calls_build: "run_calls build_calls clic_globals_zero = Inr (registry_of build_calls)"
  unfolding registry_of_build by (simp add: sample_defs clic_defs)

lemma run_calls_demo: "run_calls demo_calls clic_globals_zero = Inr (registry_of demo_calls)"
  unfolding registry_of_demo by (simp add: sample_defs clic_defs)

lemma reachable_build: "reachable (registry_of build_calls)"
  by (rule run_calls_reachable[OF reachable.start run_calls_build])

lemma reachable_demo: "reachable (registry_of demo_calls)"
  by (rule run_calls_reachable[OF reachable.start run_calls_demo])

subsection \<open>Subcommand detection\<close>

lemma detect_subcommand_found:
  assumes "1 < length argv"
    and "\<exists>scope \<in> set (subcommand_scopes g). subcommand_name scope = Some (argv ! 1)"
  shows "fst (detect_subcommand g argv) \<in> set (subcommand_scopes g) \<and>
         subcommand_name (fst (detect_subcommand g argv)) = Some (argv ! 1) \<and>
         snd (detect_subcommand g argv) = 1"
proof (cases "find (\<lambda>scope. str_equal (Some (argv ! 1)) (subcommand_name scope))
                (subcommand_scopes g)")
  case None
  with assms(2) show ?thesis by (auto simp: find_None_iff str_equal_Some)
next
  case (Some scope)
  then have "scope \<in> set (subcommand_scopes g) \<and> subcommand_name scope = Some (argv ! 1)"
    by (auto simp: find_Some_iff str_equal_Some)
  with Some assms(1) show ?thesis by (simp add: detect_subcommand_def)
qed

lemma detect_subcommand_not_found:
  assumes "\<not> (1 < length argv \<and>
             (\<exists>scope \<in> set (subcommand_scopes g). subcommand_name scope = Some (argv ! 1)))"
  shows "detect_subcommand g argv = (main_scope g, 0)"
proof (cases "1 < length argv")
  case False
  then show ?thesis by (simp add: detect_subcommand_def)
next
  case True
  with assms have "find (\<lambda>scope. str_equal (Some (argv ! 1)) (subcommand_name scope))
                     (subcommand_scopes g) = None"
    by (auto simp: find_None_iff str_equal_Some)
  with True show ?thesis by (simp add: detect_subcommand_def)
qed

text \<open>
  Claim C9. For every registry a program can build and every token sequence: if
  \<^verbatim>\<open>argv[1]\<close> exists and is the name of a registered subcommand, the active scope is a
  registered scope of that name (the first one) and the step counts 1 token; otherwise
  the active scope is the main scope, whose identifier is 0, and the step counts 0
  tokens. A call of \<^verbatim>\<open>clic_parse\<close> that returns has written the identifier of the active
  scope through \<^verbatim>\<open>subcommand_id\<close> and reports at least the tokens of this step.
\<close>

theorem subcommand_detection:
  assumes "reachable g"
  shows "(if 1 < length argv \<and>
            (\<exists>scope \<in> set (subcommand_scopes g). subcommand_name scope = Some (argv ! 1))
          then fst (detect_subcommand g argv) \<in> set (subcommand_scopes g) \<and>
               subcommand_name (fst (detect_subcommand g argv)) = Some (argv ! 1) \<and>
               find (\<lambda>scope. subcommand_name scope = Some (argv ! 1)) (subcommand_scopes g) =
                 Some (fst (detect_subcommand g argv)) \<and>
               snd (detect_subcommand g argv) = 1
          else fst (detect_subcommand g argv) = main_scope g \<and>
               subcommand_id (fst (detect_subcommand g argv)) = 0 \<and>
               snd (detect_subcommand g argv) = 0) \<and>
         (\<forall>n g' mem'. clic_parse CLIC_NORMAL g argv (Some a) mem = Some (Inr (n, g', mem')) \<longrightarrow>
            mem' a = subcommand_id (fst (detect_subcommand g argv)) \<and>
            snd (detect_subcommand g argv) \<le> n)"
proof -
  have first: "find (\<lambda>scope. subcommand_name scope = Some (argv ! 1)) (subcommand_scopes g) =
                 Some (fst (detect_subcommand g argv))"
    if "1 < length argv"
      and "\<exists>scope \<in> set (subcommand_scopes g). subcommand_name scope = Some (argv ! 1)"
  proof (cases "find (\<lambda>scope. subcommand_name scope = Some (argv ! 1)) (subcommand_scopes g)")
    case None
    with that(2) show ?thesis by (auto simp: find_None_iff)
  next
    case (Some scope)
    with that(1) show ?thesis by (simp add: detect_subcommand_def str_equal_Some)
  qed
  have main: "subcommand_id (main_scope g) = 0"
    using assms by (rule reachable_main_scope_id)
  have written: "mem' a = subcommand_id (fst (detect_subcommand g argv)) \<and>
                 snd (detect_subcommand g argv) \<le> n"
    if "clic_parse CLIC_NORMAL g argv (Some a) mem = Some (Inr (n, g', mem'))" for n g' mem'
    using clic_parse_Inr[OF that] by auto
  show ?thesis
  proof (cases "1 < length argv \<and>
      (\<exists>scope \<in> set (subcommand_scopes g). subcommand_name scope = Some (argv ! 1))")
    case True
    with detect_subcommand_found[of argv g] first written show ?thesis by auto
  next
    case False
    with detect_subcommand_not_found[of argv g] main written show ?thesis by auto
  qed
qed

theorem subcommand_detection_witness:
  "reachable (registry_of build_calls) \<and>
   detect_subcommand (registry_of build_calls) [''prog'', ''build''] =
     (\<lparr>subcommand_id = 1, subcommand_name = Some ''build'', description = None,
       accept_unnamed_arguments = 0\<rparr>, 1) \<and>
   detect_subcommand (registry_of build_calls) [''prog'', ''test''] =
     (main_scope (registry_of build_calls), 0) \<and>
   subcommand_id (main_scope (registry_of build_calls)) = 0 \<and>
   clic_parse CLIC_NORMAL (registry_of build_calls) [''prog'', ''build''] (Some 3) (\<lambda>a. 5) =
     Some (Inr (1, (registry_of build_calls)\<lparr>is_parsed := 1\<rparr>, (\<lambda>a. 5)(3 := 1)))"
  using subcommand_detection [OF reachable_build, of "[''prog'', ''build'']" 3 "\<lambda>a. 5"]
    subcommand_detection [OF reachable_build, of "[''prog'', ''test'']" 3 "\<lambda>a. 5"]
    reachable_build parse_build_subcommand [of "\<lambda>a. 5"]
  by (simp add: registry_of_build detect_subcommand_def str_equal_def)

text \<open>
  Claim C10. In a normal build, a call of \<^verbatim>\<open>clic_parse\<close> that passes the life cycle
  check stores the identifier of the active scope through \<^verbatim>\<open>subcommand_id\<close> before the
  parameter loop starts, whatever the tokens and the registered subcommands: with the
  null pointer the call ends in the null write on every token sequence, also on those
  where the parameter loop would not end, and with an address the memory of a call
  that returns differs from the initial one by that store only.
\<close>

theorem subcommand_id_stored_before_loop:
  assumes "declaring g"
  shows "clic_parse CLIC_NORMAL g argv None mem = Some (Inl NULL_DEREFERENCE) \<and>
         (\<forall>a n g' mem'. clic_parse CLIC_NORMAL g argv (Some a) mem = Some (Inr (n, g', mem')) \<longrightarrow>
            mem' = mem(a := subcommand_id (fst (detect_subcommand g argv)))) \<and>
         (\<forall>a. clic_parse CLIC_NORMAL g argv (Some a) mem =
            (case eat_parameters (g\<lparr>is_parsed := 1\<rparr>) (fst (detect_subcommand g argv)) argv
                    (snd (detect_subcommand g argv)) of
               None \<Rightarrow> None
             | Some (Inl e) \<Rightarrow> Some (Inl e)
             | Some (Inr n) \<Rightarrow>
                 Some (Inr (n, g\<lparr>is_parsed := 1\<rparr>,
                            mem(a := subcommand_id (fst (detect_subcommand g argv)))))))"
proof -
  from assms have null: "clic_parse CLIC_NORMAL g argv None mem = Some (Inl NULL_DEREFERENCE)"
    by (simp add: clic_parse_def check_initialized_eq store_int_def Let_def split: prod.splits)
  have stored: "mem' = mem(a := subcommand_id (fst (detect_subcommand g argv)))"
    if "clic_parse CLIC_NORMAL g argv (Some a) mem = Some (Inr (n, g', mem'))" for a n g' mem'
    using clic_parse_Inr[OF that] by auto
  from null stored clic_parse_normal[OF assms] show ?thesis by blast
qed

theorem subcommand_id_stored_before_loop_witness:
  "declaring (registry_of demo_calls) \<and>
   clic_parse CLIC_NORMAL (registry_of demo_calls) [''demo'', ''-v''] None (\<lambda>a. 5) =
     Some (Inl NULL_DEREFERENCE) \<and>
   clic_parse CLIC_NORMAL (registry_of demo_calls) [] None (\<lambda>a. 5) =
     Some (Inl NULL_DEREFERENCE) \<and>
   clic_parse CLIC_NORMAL (registry_of demo_calls) [''demo''] (Some 1) (\<lambda>a. 5) =
     Some (Inr (0, (registry_of demo_calls)\<lparr>is_parsed := 1\<rparr>, (\<lambda>a. 5)(1 := 0)))"
proof -
  have d: "declaring (registry_of demo_calls)"
    by (simp add: registry_of_demo declaring_def)
  from subcommand_id_stored_before_loop [OF d, of "[''demo'', ''-v'']" "\<lambda>a. 5"]
    subcommand_id_stored_before_loop [OF d, of "[]" "\<lambda>a. 5"]
    d parse_demo_alone [of "\<lambda>a. 5"]
  show ?thesis by simp
qed


subsection \<open>Declarations that the checks let through\<close>

lemma valid_name_Some: "clic_check_name_correctness name = Inr () \<Longrightarrow> \<exists>s. name = Some s"
  by (cases name) (simp_all add: clic_check_name_correctness_def clic_fail_def)

lemma is_ConfigurationError_fail [simp]: "is_ConfigurationError (clic_fail m)"
  by (simp add: clic_fail_def)

lemma check_name_cases:
  "clic_check_name_correctness name = Inr () \<or>
   clic_check_name_correctness name = clic_fail ''clic: invalid parameter/argument name''"
proof (cases name)
  case None
  then show ?thesis by (simp add: clic_check_name_correctness_def)
next
  case (Some s)
  then show ?thesis
    by (simp add: clic_check_name_correctness_def check_name_chars_eq
        del: check_name_chars.simps)
qed

text \<open>
  Claim C4 as stated fails: a second subcommand with the identifier of a registered
  one and a new name is accepted, so is one with a new identifier and the name of a
  registered one, and so is one that takes the name of the program.
\<close>

theorem add_subcommand_reuse_accepted:
  "list_ex (\<lambda>scope. subcommand_id scope = 1) (subcommand_scopes (registry_of build_calls)) \<and>
   \<not> is_ConfigurationError
       (clic_add_subcommand 1 (Some ''test'') None 0 (registry_of build_calls)) \<and>
   list_ex (\<lambda>scope. subcommand_name scope = Some ''build'')
     (subcommand_scopes (registry_of build_calls)) \<and>
   \<not> is_ConfigurationError
       (clic_add_subcommand 2 (Some ''build'') None 0 (registry_of build_calls)) \<and>
   subcommand_name (main_scope (registry_of build_calls)) = Some ''prog'' \<and>
   \<not> is_ConfigurationError
       (clic_add_subcommand 3 (Some ''prog'') None 0 (registry_of build_calls))"
  by (simp add: registry_of_build clic_defs)

text \<open>
  Claim C4, amended. \<^verbatim>\<open>clic_add_subcommand\<close> fails with a configuration error when the
  identifier is 0, and when a registered subcommand has both the given identifier and
  the given name; its only failures are configuration errors. In the declaring state,
  a valid name with a nonzero identifier succeeds when no registered subcommand has
  that identifier and none has that name, and the new scope is appended. The name of
  the main scope takes no part in the check.
\<close>

theorem add_subcommand_duplicates:
  "(scope_id = 0 \<longrightarrow> is_ConfigurationError (clic_add_subcommand scope_id name descr accept g)) \<and>
   ((\<exists>scope \<in> set (subcommand_scopes g).
        subcommand_id scope = scope_id \<and> subcommand_name scope = name) \<longrightarrow>
      is_ConfigurationError (clic_add_subcommand scope_id name descr accept g)) \<and>
   (\<forall>e. clic_add_subcommand scope_id name descr accept g = Inl e \<longrightarrow>
      is_ConfigurationError (clic_add_subcommand scope_id name descr accept g)) \<and>
   (declaring g \<and> clic_check_name_correctness name = Inr () \<and> scope_id \<noteq> 0 \<and>
    (\<forall>scope \<in> set (subcommand_scopes g).
        subcommand_id scope \<noteq> scope_id \<and> subcommand_name scope \<noteq> name) \<longrightarrow>
      clic_add_subcommand scope_id name descr accept g =
        Inr (g\<lparr>subcommand_scopes := subcommand_scopes g @
               [\<lparr>subcommand_id = scope_id, subcommand_name = name, description = descr,
                 accept_unnamed_arguments = accept\<rparr>]\<rparr>))"
proof -
  let ?r = "clic_add_subcommand scope_id name descr accept g"
  have zero: "is_ConfigurationError ?r" if "scope_id = 0"
    using that check_name_cases[of name]
    by (auto simp: clic_add_subcommand_def check_initialized_eq
        clic_check_subcommmand_declaration_def)
  have dup: "is_ConfigurationError ?r"
    if "\<exists>scope \<in> set (subcommand_scopes g).
          subcommand_id scope = scope_id \<and> subcommand_name scope = name"
  proof (cases "clic_check_name_correctness name = Inr ()")
    case False
    with check_name_cases[of name] show ?thesis
      by (auto simp: clic_add_subcommand_def check_initialized_eq)
  next
    case True
    then obtain s where s: "name = Some s" using valid_name_Some by blast
    from that s have "list_ex (\<lambda>scope. scope_id = subcommand_id scope \<and>
        str_equal name (subcommand_name scope)) (subcommand_scopes g)"
      by (auto simp: list_ex_iff str_equal_def)
    with True show ?thesis
      by (auto simp: clic_add_subcommand_def check_initialized_eq
          clic_check_subcommmand_declaration_def)
  qed
  have only: "is_ConfigurationError ?r" if "?r = Inl e" for e
    using that check_name_cases[of name]
    by (auto simp: clic_add_subcommand_def check_initialized_eq
        clic_check_subcommmand_declaration_def clic_fail_def split: if_splits)
  have fresh: "?r = Inr (g\<lparr>subcommand_scopes := subcommand_scopes g @
               [\<lparr>subcommand_id = scope_id, subcommand_name = name, description = descr,
                 accept_unnamed_arguments = accept\<rparr>]\<rparr>)"
    if "declaring g" and v: "clic_check_name_correctness name = Inr ()" and "scope_id \<noteq> 0"
      and f: "\<forall>scope \<in> set (subcommand_scopes g).
          subcommand_id scope \<noteq> scope_id \<and> subcommand_name scope \<noteq> name"
  proof -
    from f have "\<not> list_ex (\<lambda>scope. scope_id = subcommand_id scope \<and>
        str_equal name (subcommand_name scope)) (subcommand_scopes g)"
      by (auto simp: list_ex_iff)
    with that(1,3) v show ?thesis
      by (simp add: clic_add_subcommand_def check_initialized_eq
          clic_check_subcommmand_declaration_def clic_add_to_list_def zero_scope_def)
  qed
  from zero dup only fresh show ?thesis by blast
qed

theorem add_subcommand_duplicates_witness:
  "is_ConfigurationError (clic_add_subcommand 0 (Some ''test'') None 0 (registry_of build_calls)) \<and>
   is_ConfigurationError (clic_add_subcommand 1 (Some ''build'') None 0 (registry_of build_calls)) \<and>
   declaring (registry_of build_calls) \<and>
   clic_add_subcommand 2 (Some ''test'') None 0 (registry_of build_calls) =
     Inr ((registry_of build_calls)\<lparr>subcommand_scopes :=
            subcommand_scopes (registry_of build_calls) @
              [\<lparr>subcommand_id = 2, subcommand_name = Some ''test'', description = None,
                accept_unnamed_arguments = 0\<rparr>]\<rparr>)"
proof -
  have v: "clic_check_name_correctness (Some ''test'') = Inr ()"
    by (simp add: clic_defs)
  have d: "declaring (registry_of build_calls)"
    by (simp add: registry_of_build declaring_def)
  from add_subcommand_duplicates [of 0 "Some ''test''" None 0 "registry_of build_calls"]
    add_subcommand_duplicates [of 1 "Some ''build''" None 0 "registry_of build_calls"]
    add_subcommand_duplicates [of 2 "Some ''test''" None 0 "registry_of build_calls"]
    v d
  show ?thesis by (simp add: registry_of_build)
qed

text \<open>
  Claim C6 as stated fails: \<^verbatim>\<open>clic_init\<close> has no check, and a second call on an
  initialised registry returns normally with the main scope replaced.
\<close>

theorem second_init_accepted:
  "is_init (registry_of init_calls) \<noteq> 0 \<and>
   \<not> is_ConfigurationError
       (clic_init (Some ''other'') None None None 1 (registry_of init_calls)) \<and>
   clic_init (Some ''other'') None None None 1 (registry_of init_calls) =
     Inr ((registry_of init_calls)\<lparr>
            metadata := \<lparr>version = None, license = None\<rparr>,
            main_scope := \<lparr>subcommand_id = 0, subcommand_name = Some ''other'',
              description = None, accept_unnamed_arguments = 1\<rparr>\<rparr>)"
  by (simp add: registry_of_init clic_init_def zero_scope_def)

text \<open>
  Claim C6, amended. A call of \<^verbatim>\<open>clic_init\<close> on a registry that is already initialised
  never fails: it returns with the version, the license and the main scope (identifier
  0) replaced by its arguments, \<^verbatim>\<open>is_init\<close> set, and \<^verbatim>\<open>is_parsed\<close> and the four lists of
  declarations as they were.
\<close>

theorem second_init_overwrites:
  assumes "is_init g \<noteq> 0"
  shows "\<not> is_ConfigurationError (clic_init program vers lic descr accept g) \<and>
    (\<exists>g'. clic_init program vers lic descr accept g = Inr g' \<and>
       is_init g' = 1 \<and> is_parsed g' = is_parsed g \<and>
       metadata g' = \<lparr>version = vers, license = lic\<rparr> \<and>
       main_scope g' = \<lparr>subcommand_id = 0, subcommand_name = program, description = descr,
         accept_unnamed_arguments = accept\<rparr> \<and>
       flag_names g' = flag_names g \<and> params_and_args g' = params_and_args g \<and>
       string_options g' = string_options g \<and> subcommand_scopes g' = subcommand_scopes g)"
  by (simp add: clic_init_def zero_scope_def)

theorem second_init_overwrites_witness:
  "is_init (registry_of build_calls) \<noteq> 0 \<and>
   \<not> is_ConfigurationError
       (clic_init (Some ''other'') None None None 1 (registry_of build_calls)) \<and>
   (\<exists>g'. clic_init (Some ''other'') None None None 1 (registry_of build_calls) = Inr g' \<and>
      main_scope g' = \<lparr>subcommand_id = 0, subcommand_name = Some ''other'',
        description = None, accept_unnamed_arguments = 1\<rparr> \<and>
      subcommand_scopes g' = subcommand_scopes (registry_of build_calls))"
proof -
  have i: "is_init (registry_of build_calls) \<noteq> 0"
    by (simp add: registry_of_build)
  from second_init_overwrites [OF i, of "Some ''other''" None None None 1] i
  show ?thesis by auto
qed

text \<open>
  Claim C7 as stated fails: a value is registered for an integer parameter, for a
  flag, and for a string parameter that is not restricted.
\<close>

theorem string_option_for_any_entry:
  "param_type (hd (params_and_args (registry_of count_calls))) = CLIC_INT \<and>
   \<not> is_ConfigurationError
       (clic_add_string_option 0 (Some ''count'') (Some ''many'') (registry_of count_calls)) \<and>
   param_type (hd (params_and_args (registry_of demo_calls))) = CLIC_FLAG \<and>
   \<not> is_ConfigurationError
       (clic_add_string_option 0 (Some ''v'') (Some ''many'') (registry_of demo_calls)) \<and>
   \<not> is_ConfigurationError
       (run_calls
          [Init (Some ''prog'') (Some ''1.0.0'') None None 0,
           Add_param_string 0 (Some ''mode'') None None (Some 0) 0,
           Add_string_option 0 (Some ''mode'') (Some ''fast'')] clic_globals_zero)"
proof -
  have a: "param_type (hd (params_and_args (registry_of count_calls))) = CLIC_INT \<and>
     \<not> is_ConfigurationError
       (clic_add_string_option 0 (Some ''count'') (Some ''many'') (registry_of count_calls))"
    by (simp add: registry_of_count clic_defs)
  have b: "param_type (hd (params_and_args (registry_of demo_calls))) = CLIC_FLAG \<and>
     \<not> is_ConfigurationError
       (clic_add_string_option 0 (Some ''v'') (Some ''many'') (registry_of demo_calls))"
    by (simp add: registry_of_demo clic_defs)
  have c: "\<not> is_ConfigurationError
       (run_calls
          [Init (Some ''prog'') (Some ''1.0.0'') None None 0,
           Add_param_string 0 (Some ''mode'') None None (Some 0) 0,
           Add_string_option 0 (Some ''mode'') (Some ''fast'')] clic_globals_zero)"
    by (simp add: clic_defs)
  from a b c show ?thesis by simp
qed

text \<open>
  Claim C7, amended. \<^verbatim>\<open>clic_add_string_option\<close> succeeds, appending the value, exactly
  when the registry is declaring, the scope is the main one or a registered
  subcommand, the name is valid and a parameter or argument of that name is declared
  in that scope, of whatever type and restricted or not; in every other case it fails
  with a configuration error.
\<close>

theorem add_string_option_declared_entry:
  "(if declaring g \<and>
       (scope_id = 0 \<or> (\<exists>scope \<in> set (subcommand_scopes g). subcommand_id scope = scope_id)) \<and>
       clic_check_name_correctness name = Inr () \<and>
       (\<exists>param \<in> set (params_and_args g).
           param_subcommand_id param = scope_id \<and> param_name param = name)
    then clic_add_string_option scope_id name val g =
           Inr (g\<lparr>string_options := string_options g @
                  [\<lparr>option_subcommand_id = scope_id, param_or_arg_name = name,
                    option_value = val\<rparr>]\<rparr>)
    else is_ConfigurationError (clic_add_string_option scope_id name val g))"
proof -
  have scope: "clic_check_subcommmand_declaration g scope_id None 1 =
      (if scope_id = 0 \<or> (\<exists>scope \<in> set (subcommand_scopes g). subcommand_id scope = scope_id)
       then Inr () else clic_fail ''clic: subcommand has not been declared'')"
    by (auto simp: clic_check_subcommmand_declaration_def list_ex_iff)
  have entry: "clic_check_param_or_arg_declaration g scope_id name 1 =
      (if \<exists>param \<in> set (params_and_args g).
            param_subcommand_id param = scope_id \<and> param_name param = name
       then Inr ()
       else clic_fail ''clic: parameter/argument has not been declared in this scope'')"
    if "clic_check_name_correctness name = Inr ()"
  proof -
    from that obtain s where "name = Some s" using valid_name_Some by blast
    with that show ?thesis
      by (auto simp: clic_check_param_or_arg_declaration_def list_ex_iff str_equal_Some)
  qed
  show ?thesis
  proof (cases "clic_check_name_correctness name = Inr ()")
    case True
    then show ?thesis
      by (auto simp add: clic_add_string_option_def check_initialized_eq clic_add_to_list_def
          entry[OF True] scope)
  next
    case False
    with check_name_cases[of name]
    have "clic_check_param_or_arg_declaration g scope_id name 1 =
        clic_fail ''clic: invalid parameter/argument name''"
      by (auto simp: clic_check_param_or_arg_declaration_def clic_fail_def)
    with False show ?thesis
      by (auto simp add: clic_add_string_option_def check_initialized_eq scope)
  qed
qed

theorem add_string_option_declared_entry_witness:
  "clic_add_string_option 0 (Some ''mode'') (Some ''medium'') (registry_of mode_calls) =
     Inr ((registry_of mode_calls)\<lparr>string_options :=
            string_options (registry_of mode_calls) @
              [\<lparr>option_subcommand_id = 0, param_or_arg_name = Some ''mode'',
                option_value = Some ''medium''\<rparr>]\<rparr>) \<and>
   is_ConfigurationError
     (clic_add_string_option 0 (Some ''colour'') (Some ''red'') (registry_of count_calls)) \<and>
   is_ConfigurationError
     (clic_add_string_option 4 (Some ''count'') (Some ''red'') (registry_of count_calls)) \<and>
   is_ConfigurationError
     (clic_add_string_option 0 (Some ''count'') (Some ''red'')
        ((registry_of count_calls)\<lparr>is_parsed := 1\<rparr>))"
proof -
  have v: "clic_check_name_correctness (Some ''mode'') = Inr ()"
    "clic_check_name_correctness (Some ''count'') = Inr ()"
    "clic_check_name_correctness (Some ''colour'') = Inr ()"
    by (simp_all add: clic_defs)
  from add_string_option_declared_entry [of "registry_of mode_calls" 0 "Some ''mode''"
      "Some ''medium''"]
    add_string_option_declared_entry [of "registry_of count_calls" 0 "Some ''colour''"
      "Some ''red''"]
    add_string_option_declared_entry [of "registry_of count_calls" 4 "Some ''count''"
      "Some ''red''"]
    add_string_option_declared_entry [of "(registry_of count_calls)\<lparr>is_parsed := 1\<rparr>" 0
      "Some ''count''" "Some ''red''"]
    v
  show ?thesis by (simp add: registry_of_count registry_of_mode declaring_def)
qed


end
